theory Spec2Isabelle
  imports Main
begin

section \<open>Menu item dialog: data model\<close>

text \<open>
  The TypeScript type \<^verbatim>\<open>MenuItemType\<close> is the union of four string literals. It exists
  at compile time only: at run time a value of that type is a plain string, and the cast
  \<^verbatim>\<open>type as MenuItemType\<close> checks nothing. The fields typed \<^verbatim>\<open>MenuItemType\<close> are
  therefore strings here, and the enumeration is the list of its four members.
\<close>

definition MenuItemTypes :: "string list" where
  "MenuItemTypes = [''category'', ''collection'', ''link'', ''page'']"

text \<open>
  \<^verbatim>\<open>MenuItemData\<close> and its extension \<^verbatim>\<open>MenuItemDialogFormData\<close>. The fields
  \<^verbatim>\<open>id\<close>, \<^verbatim>\<open>type\<close> and \<^verbatim>\<open>name\<close> carry the suffix \<open>_field\<close>.
\<close>

record MenuItemData =
  id_field :: string
  type_field :: string

record MenuItemDialogFormData = MenuItemData +
  name_field :: string

text \<open>\<^verbatim>\<open>keyof MenuItemDialogFormData\<close>: the names a form field can have.\<close>

datatype field = F_id | F_name | F_type

text \<open>
  A label is a \<^verbatim>\<open>React.ReactNode\<close>. The dialog builds two kinds: a string (an entity's
  name, a translated group title) and the \<^verbatim>\<open>div\<close> element of the link suggestion, kept
  here with the HTML it is given. \<^verbatim>\<open>toString()\<close> on a string is the string itself; on
  an element, which is a plain object, it is \<^verbatim>\<open>[object Object]\<close>.
\<close>

datatype ReactNode = Text string | Element string

fun toString :: "ReactNode \<Rightarrow> string" where
  "toString (Text s) = s"
| "toString (Element html) = ''[object Object]''"

text \<open>
  \<^verbatim>\<open>SelectMenuItem\<close>, a node of the option tree: \<^verbatim>\<open>children\<close> and \<^verbatim>\<open>value\<close> are
  optional fields (\<open>None\<close> is \<^verbatim>\<open>undefined\<close>), \<^verbatim>\<open>label\<close> is always there. The field
  \<^verbatim>\<open>value\<close> is \<open>val\<close> here.
\<close>

datatype SelectMenuItem =
  SelectMenuItem (children: "SelectMenuItem list option") (label: ReactNode)
    (val: "string option")

text \<open>
  A candidate entity, as the search containers deliver it (a category or a collection):
  its \<^verbatim>\<open>id\<close> and its \<^verbatim>\<open>name\<close>.
\<close>

record edges_node =
  node_id :: string
  node_name :: string

text \<open>
  The run-time failure of the module: reading a property of \<^verbatim>\<open>undefined\<close> raises a
  \<^verbatim>\<open>TypeError\<close>. The argument is the name of the property that was read. The module
  has no \<^verbatim>\<open>throw\<close> of its own.
\<close>

datatype error = TypeError string

section \<open>String primitives\<close>

text \<open>
  \<^verbatim>\<open>s.split(c)\<close> for a one-character separator: the segments between the occurrences
  of \<open>c\<close>, one more than there are occurrences, so never the empty array.
\<close>

function split :: "char \<Rightarrow> string \<Rightarrow> string list" where
  "split c s =
     (case dropWhile (\<lambda>x. x \<noteq> c) s of
        [] \<Rightarrow> [s]
      | _ # rest \<Rightarrow> takeWhile (\<lambda>x. x \<noteq> c) s # split c rest)"
  by pat_completeness auto
termination
proof (relation "measure (\<lambda>(c, s). length s)")
  show "wf (measure (\<lambda>(c, s). length s))" by simp
next
  fix c :: char and s :: string and x rest
  assume "dropWhile (\<lambda>x. x \<noteq> c) s = x # rest"
  then have "length (x # rest) \<le> length s"
    using length_dropWhile_le [of "\<lambda>x. x \<noteq> c" s] by simp
  then show "((c, rest), (c, s)) \<in> measure (\<lambda>(c, s). length s)" by simp
qed

declare split.simps [simp del]

text \<open>\<^verbatim>\<open>parts.join(sep)\<close>: the parts with \<open>sep\<close> between neighbours.\<close>

fun join :: "string \<Rightarrow> string list \<Rightarrow> string" where
  "join sep [] = []"
| "join sep [p] = p"
| "join sep (p # q # ps) = p @ sep @ join sep (q # ps)"

text \<open>Truthiness of a \<^verbatim>\<open>string | undefined\<close>: defined and not the empty string.\<close>

fun truthy :: "string option \<Rightarrow> bool" where
  "truthy None = False"
| "truthy (Some s) = (s \<noteq> [])"

section \<open>The three pure functions\<close>

text \<open>
  \<^verbatim>\<open>findMenuItem\<close>: every node is mapped to its match (the search of its children when
  \<^verbatim>\<open>children\<close> is truthy, which any array is; itself or \<^verbatim>\<open>undefined\<close> otherwise), and
  the first match that is not \<^verbatim>\<open>undefined\<close> is returned, \<^verbatim>\<open>undefined\<close> when there is
  none. \<^verbatim>\<open>menuItem.value === value\<close> is false for a node without a value.
\<close>

function findMenuItem :: "SelectMenuItem list \<Rightarrow> string \<Rightarrow> SelectMenuItem option" where
  "findMenuItem menu v =
     (let matches = map (\<lambda>menuItem.
            case children menuItem of
              Some cs \<Rightarrow> findMenuItem cs v
            | None \<Rightarrow> (if val menuItem = Some v then Some menuItem else None)) menu
      in case find (\<lambda>match. match \<noteq> None) matches of
           Some match \<Rightarrow> match
         | None \<Rightarrow> None)"
  by pat_completeness auto
termination
proof (relation "measure (\<lambda>(menu, v). size_list size menu)")
  show "wf (measure (\<lambda>(menu, v). size_list size menu))" by simp
next
  fix menu :: "SelectMenuItem list" and v :: string and x cs
  assume x: "x \<in> set menu" and c: "children x = Some cs"
  from c have "size_list size cs < size x" by (cases x) simp
  with x have "size_list size cs < size_list size menu" by (rule size_list_estimation)
  then show "((cs, v), (menu, v)) \<in> measure (\<lambda>(menu, v). size_list size menu)" by simp
qed

declare findMenuItem.simps [simp del]

text \<open>
  \<^verbatim>\<open>getMenuItemData\<close>: \<^verbatim>\<open>const [type, ...idParts] = value.split(":")\<close>. The array is
  never empty (\<open>split_not_Nil\<close> below), so \<^verbatim>\<open>type\<close> is always bound to a string; the
  branch for the empty array is there for totality only.
\<close>

definition getMenuItemData :: "string \<Rightarrow> MenuItemData" where
  "getMenuItemData v =
     (case split (CHR '':'') v of
        type # idParts \<Rightarrow> \<lparr>id_field = join '':'' idParts, type_field = type\<rparr>
      | [] \<Rightarrow> \<lparr>id_field = join '':'' [], type_field = []\<rparr>)"

text \<open>
  \<^verbatim>\<open>getDisplayValue\<close>: \<^verbatim>\<open>findMenuItem(menu, value).label.toString()\<close> reads
  \<^verbatim>\<open>label\<close> of the search result, which raises when the result is \<^verbatim>\<open>undefined\<close>.
\<close>

definition getDisplayValue :: "SelectMenuItem list \<Rightarrow> string \<Rightarrow> error + string" where
  "getDisplayValue menu v =
     (let menuItemData = getMenuItemData v in
      if type_field menuItemData = ''link'' then Inr (id_field menuItemData)
      else (case findMenuItem menu v of
              None \<Rightarrow> Inl (TypeError ''label'')
            | Some item \<Rightarrow> Inr (toString (label item))))"

section \<open>The coordinator\<close>

text \<open>
  The dialog's state: the form's data (held by the \<^verbatim>\<open>Form\<close> component), the two
  \<^verbatim>\<open>useState\<close> cells \<^verbatim>\<open>displayValue\<close> and \<^verbatim>\<open>url\<close>, and the trace of the effects
  the handlers have performed, in the order they performed them.
\<close>

datatype event =
    Change field string
  | SetDisplayValue string
  | SetUrl "string option"
  | OnQueryChange string

record dialog_state =
  data :: MenuItemDialogFormData
  displayValue :: "string option"
  url :: "string option"
  trace :: "event list"

definition defaultInitial :: MenuItemDialogFormData where
  "defaultInitial = \<lparr>id_field = [], type_field = ''category'', name_field = []\<rparr>"

text \<open>
  \<^verbatim>\<open>initial || defaultInitial\<close>, the \<^verbatim>\<open>initial\<close> prop of the form: an object is always
  truthy, so the default is taken exactly when \<^verbatim>\<open>initial\<close> is \<^verbatim>\<open>undefined\<close>.
\<close>

definition form_initial :: "MenuItemDialogFormData option \<Rightarrow> MenuItemDialogFormData" where
  "form_initial initial = (case initial of Some d \<Rightarrow> d | None \<Rightarrow> defaultInitial)"

text \<open>
  The translation function \<^verbatim>\<open>i18n.t\<close> is an external collaborator: it is a parameter
  \<open>t\<close> of the option-tree construction, taking the message and its interpolation
  arguments.
\<close>

datatype i18n_arg = Num nat | Str string

type_synonym i18n_t = "string \<Rightarrow> (string \<times> i18n_arg) list \<Rightarrow> string"

text \<open>
  The option tree of one render, from the two candidate lists and the \<^verbatim>\<open>url\<close> cell:
  the three \<^verbatim>\<open>if\<close> statements in their order.
\<close>

definition options ::
  "i18n_t \<Rightarrow> edges_node list \<Rightarrow> edges_node list \<Rightarrow> string option \<Rightarrow> SelectMenuItem list"
where
  "options t categories collections u =
     (let options0 = [];
          options1 =
            (if length categories > 0 then
               options0 @
               [SelectMenuItem
                  (Some (map (\<lambda>category.
                     SelectMenuItem None (Text (node_name category))
                       (Some (''category:'' @ node_id category))) categories))
                  (Text (t ''Categories ({{ number }})''
                     [(''number'', Num (length categories))]))
                  None]
             else options0);
          options2 =
            (if length collections > 0 then
               options1 @
               [SelectMenuItem
                  (Some (map (\<lambda>collection.
                     SelectMenuItem None (Text (node_name collection))
                       (Some (''collection:'' @ node_id collection))) collections))
                  (Text (t ''Collections ({{ number }})''
                     [(''number'', Num (length collections))]))
                  None]
             else options1)
      in case u of
           Some url_text \<Rightarrow>
             (if truthy u then
                [SelectMenuItem None
                   (Element (t ''link to: <strong>{{ url }}</strong>''
                      [(''context'', Str ''add link to navigation''), (''url'', Str url_text)]))
                   (Some (''link:'' @ url_text))]
              else options2)
         | None \<Rightarrow> options2)"

text \<open>The state setters and the outward callback, each recorded in the trace.\<close>

definition setUrl :: "string option \<Rightarrow> dialog_state \<Rightarrow> dialog_state" where
  "setUrl u st = st\<lparr>url := u, trace := trace st @ [SetUrl u]\<rparr>"

definition setDisplayValue :: "string \<Rightarrow> dialog_state \<Rightarrow> dialog_state" where
  "setDisplayValue s st = st\<lparr>displayValue := Some s, trace := trace st @ [SetDisplayValue s]\<rparr>"

definition onQueryChange :: "string \<Rightarrow> dialog_state \<Rightarrow> dialog_state" where
  "onQueryChange query st = st\<lparr>trace := trace st @ [OnQueryChange query]\<rparr>"

text \<open>
  \<^verbatim>\<open>handleQueryChange\<close>; the URL classifier \<^verbatim>\<open>isUrl\<close> (the package \<^verbatim>\<open>is-url\<close>) is
  external and is a parameter.
\<close>

definition handleQueryChange :: "(string \<Rightarrow> bool) \<Rightarrow> string \<Rightarrow> dialog_state \<Rightarrow> dialog_state" where
  "handleQueryChange isUrl query st =
     (let st1 = (if isUrl query then setUrl (Some query) st
                 else if truthy (url st) then setUrl None st
                 else st)
      in onQueryChange query st1)"

text \<open>
  Modelled from the spec: the form's \<^verbatim>\<open>change(event, callback)\<close>, which belongs to
  the \<^verbatim>\<open>Form\<close> component and is not among the sources. The specification describes
  it as writing the named field into the form's data, the updates of one selection being
  a chain of dependent state updates: the callback runs once the write is committed, on
  the updated state.
\<close>

fun set_field :: "field \<Rightarrow> string \<Rightarrow> MenuItemDialogFormData \<Rightarrow> MenuItemDialogFormData" where
  "set_field F_id x d = d\<lparr>id_field := x\<rparr>"
| "set_field F_name x d = d\<lparr>name_field := x\<rparr>"
| "set_field F_type x d = d\<lparr>type_field := x\<rparr>"

definition change ::
  "field \<Rightarrow> string \<Rightarrow> (dialog_state \<Rightarrow> error + dialog_state) \<Rightarrow> dialog_state
     \<Rightarrow> error + dialog_state"
where
  "change name x callback st =
     callback (st\<lparr>data := set_field name x (data st), trace := trace st @ [Change name x]\<rparr>)"

text \<open>
  \<^verbatim>\<open>handleSelectChange\<close>, with the option tree of the render it was created in. An
  exception of \<^verbatim>\<open>getDisplayValue\<close> leaves the innermost callback and ends the handler.
\<close>

definition handleSelectChange ::
  "SelectMenuItem list \<Rightarrow> string \<Rightarrow> dialog_state \<Rightarrow> error + dialog_state"
where
  "handleSelectChange opts v st =
     (let menuItemData = getMenuItemData v in
      change F_id (id_field menuItemData)
        (change F_type (type_field menuItemData)
           (\<lambda>st'. case getDisplayValue opts v of
                    Inl e \<Rightarrow> Inl e
                  | Inr s \<Rightarrow> Inr (setDisplayValue s st')))
        st)"

section \<open>Notions used to state the properties\<close>

text \<open>
  The leaves of an option tree in depth-first order: a node without \<^verbatim>\<open>children\<close> is a
  leaf, the leaves of a node with \<^verbatim>\<open>children\<close> are those of its children, in array
  order.
\<close>

fun leaves_of :: "SelectMenuItem \<Rightarrow> SelectMenuItem list" where
  "leaves_of (SelectMenuItem None l x) = [SelectMenuItem None l x]"
| "leaves_of (SelectMenuItem (Some cs) l x) = concat (map leaves_of cs)"

definition leaves :: "SelectMenuItem list \<Rightarrow> SelectMenuItem list" where
  "leaves menu = concat (map leaves_of menu)"

text \<open>The arguments of the calls of \<^verbatim>\<open>onQueryChange\<close> in a trace, in order.\<close>

fun queries :: "event list \<Rightarrow> string list" where
  "queries [] = []"
| "queries (OnQueryChange q # es) = q # queries es"
| "queries (e # es) = queries es"

section \<open>Auxiliary facts\<close>

subsection \<open>Splitting and joining\<close>

lemma split_not_Nil: "split c s \<noteq> []"
  by (subst split.simps) (simp split: list.splits)

lemma split_no_sep: "c \<notin> set s \<Longrightarrow> split c s = [s]"
proof -
  assume "c \<notin> set s"
  then have d: "dropWhile (\<lambda>x. x \<noteq> c) s = []" by auto
  show ?thesis by (subst split.simps) (simp only: d list.case)
qed

lemma split_append_sep:
  assumes "c \<notin> set t"
  shows "split c (t @ c # r) = t # split c r"
proof -
  from assms have d: "dropWhile (\<lambda>x. x \<noteq> c) (t @ c # r) = c # r"
    by (auto simp: dropWhile_append3)
  from assms have k: "takeWhile (\<lambda>x. x \<noteq> c) (t @ c # r) = t"
    by (auto simp: takeWhile_tail)
  show ?thesis by (subst split.simps) (simp add: d k)
qed

lemma join_Cons_nonempty: "ps \<noteq> [] \<Longrightarrow> join sep (p # ps) = p @ sep @ join sep ps"
  by (cases ps) simp_all

lemma join_split: "join [c] (split c s) = s"
proof (induction c s rule: split.induct)
  case (1 c s)
  show ?case
  proof (cases "dropWhile (\<lambda>x. x \<noteq> c) s")
    case Nil
    have "split c s = [s]" by (subst split.simps) (simp only: Nil list.case)
    then show ?thesis by simp
  next
    case (Cons x rest)
    then have xc: "x = c"
      using hd_dropWhile [of "\<lambda>x. x \<noteq> c" s] by auto
    have "join [c] (split c s) = join [c] (takeWhile (\<lambda>x. x \<noteq> c) s # split c rest)"
      by (subst split.simps) (simp add: Cons)
    also have "\<dots> = takeWhile (\<lambda>x. x \<noteq> c) s @ [c] @ join [c] (split c rest)"
      by (rule join_Cons_nonempty) (rule split_not_Nil)
    also have "\<dots> = takeWhile (\<lambda>x. x \<noteq> c) s @ c # rest"
      using "1.IH" [OF Cons] by simp
    also have "\<dots> = s"
      using takeWhile_dropWhile_id [of "\<lambda>x. x \<noteq> c" s] Cons xc by simp
    finally show ?thesis .
  qed
qed

lemma getMenuItemData_append:
  assumes "CHR '':'' \<notin> set t"
  shows "getMenuItemData (t @ '':'' @ i) = \<lparr>id_field = i, type_field = t\<rparr>"
proof -
  have "split (CHR '':'') (t @ '':'' @ i) = t # split (CHR '':'') i"
    using split_append_sep [OF assms, of i] by simp
  then show ?thesis
    using join_split [of "CHR '':''" i] by (simp add: getMenuItemData_def)
qed

lemma getMenuItemData_category7:
  "getMenuItemData ''category:7'' = \<lparr>id_field = ''7'', type_field = ''category''\<rparr>"
  using getMenuItemData_append [of "''category''" "''7''"] by simp

lemma getMenuItemData_collection42:
  "getMenuItemData ''collection:42'' = \<lparr>id_field = ''42'', type_field = ''collection''\<rparr>"
  using getMenuItemData_append [of "''collection''" "''42''"] by simp

lemma getMenuItemData_link_url:
  "getMenuItemData (''link:'' @ u) = \<lparr>id_field = u, type_field = ''link''\<rparr>"
  using getMenuItemData_append [of "''link''" u] by simp

subsection \<open>The tree search, one node at a time\<close>

lemma findMenuItem_Nil: "findMenuItem [] v = None"
  by (subst findMenuItem.simps) simp

lemma findMenuItem_Cons:
  "findMenuItem (m # ms) v =
     (case (case children m of
              Some cs \<Rightarrow> findMenuItem cs v
            | None \<Rightarrow> (if val m = Some v then Some m else None)) of
        Some x \<Rightarrow> Some x
      | None \<Rightarrow> findMenuItem ms v)"
proof -
  have rest: "findMenuItem ms v =
      (case find (\<lambda>match. match \<noteq> None) (map (\<lambda>menuItem.
            case children menuItem of
              Some cs \<Rightarrow> findMenuItem cs v
            | None \<Rightarrow> (if val menuItem = Some v then Some menuItem else None)) ms) of
         Some match \<Rightarrow> match
       | None \<Rightarrow> None)"
    by (subst findMenuItem.simps) (simp add: Let_def)
  show ?thesis
    unfolding rest
    by (subst findMenuItem.simps) (simp add: Let_def split: option.splits)
qed

lemma find_append:
  "find P (xs @ ys) = (case find P xs of Some x \<Rightarrow> Some x | None \<Rightarrow> find P ys)"
  by (induction xs) simp_all

lemma find_Some_set: "find P xs = Some x \<Longrightarrow> x \<in> set xs \<and> P x"
  by (induction xs) (auto split: if_splits)

lemma leaves_Nil: "leaves [] = []"
  by (simp add: leaves_def)

lemma leaves_Cons: "leaves (m # ms) = leaves_of m @ leaves ms"
  by (simp add: leaves_def)

lemma leaves_of_group: "children m = Some cs \<Longrightarrow> leaves_of m = leaves cs"
  by (cases m) (simp add: leaves_def)

lemma leaves_of_leaf: "children m = None \<Longrightarrow> leaves_of m = [m]"
  by (cases m) simp

lemma findMenuItem_leaves:
  "findMenuItem menu v = find (\<lambda>m. val m = Some v) (leaves menu)"
proof (induction menu v rule: findMenuItem.induct)
  case (1 menu v)
  have "\<forall>m \<in> set ms. m \<in> set menu \<Longrightarrow>
        findMenuItem ms v = find (\<lambda>m. val m = Some v) (leaves ms)" for ms
  proof (induction ms)
    case Nil
    show ?case by (simp add: findMenuItem_Nil leaves_Nil)
  next
    case (Cons m ms)
    then have rest_eq: "findMenuItem ms v = find (\<lambda>m. val m = Some v) (leaves ms)" by simp
    from Cons.prems have mem: "m \<in> set menu" by simp
    show ?case
    proof (cases "children m")
      case None
      then show ?thesis
        by (simp add: findMenuItem_Cons leaves_Cons leaves_of_leaf rest_eq)
    next
      case (Some cs)
      have "findMenuItem cs v = find (\<lambda>m. val m = Some v) (leaves cs)"
        using "1.IH" [OF mem Some] .
      with Some show ?thesis
        by (simp add: findMenuItem_Cons leaves_Cons leaves_of_group find_append rest_eq split: option.splits)
    qed
  qed
  then show ?case by simp
qed

lemma leaves_children_None: "m \<in> set (leaves_of x) \<Longrightarrow> children m = None"
  by (induction x arbitrary: m rule: leaves_of.induct) auto

lemma leaves_are_leaves: "m \<in> set (leaves menu) \<Longrightarrow> children m = None"
  by (auto simp: leaves_def dest: leaves_children_None)

subsection \<open>Traces\<close>

lemma queries_append: "queries (xs @ ys) = queries xs @ queries ys"
  by (induction xs rule: queries.induct) simp_all

section \<open>The selection-key resolver\<close>

text \<open>
  Claim C1. For each of the four types \<open>category\<close>, \<open>collection\<close>, \<open>link\<close>, \<open>page\<close>
  and every id string \<open>i\<close>, ids containing \<open>:\<close> included, \<^verbatim>\<open>getMenuItemData\<close> decodes
  the key \<open>type + ":" + i\<close> to exactly \<open>{type, i}\<close>: the later colons of the id are put
  back by the join, so the id comes out whole.
\<close>

theorem getMenuItemData_roundtrip:
  "t \<in> set MenuItemTypes \<Longrightarrow> getMenuItemData (t @ '':'' @ i) = \<lparr>id_field = i, type_field = t\<rparr>"
  by (rule getMenuItemData_append) (auto simp: MenuItemTypes_def)

text \<open>
  The instance of the specification's scenario: the link key of the URL \<open>https://a.b/c\<close>.
\<close>

theorem getMenuItemData_roundtrip_witness:
  "''link'' \<in> set MenuItemTypes \<and>
   getMenuItemData ''link:https://a.b/c'' = \<lparr>id_field = ''https://a.b/c'', type_field = ''link''\<rparr>"
  using getMenuItemData_roundtrip [of "''link''" "''https://a.b/c''"]
  by (simp add: MenuItemTypes_def)

text \<open>
  Claim C8, as amended. The decoder has no rejection: for every input string it returns
  a record, whose type is the segment before the first \<open>:\<close> (the whole string when
  there is none), taken as it is and not compared with the enumeration, and whose id is
  everything after that first \<open>:\<close>.
\<close>

theorem getMenuItemData_accepts_any_type:
  "type_field (getMenuItemData v) = takeWhile (\<lambda>x. x \<noteq> CHR '':'') v \<and>
   id_field (getMenuItemData v) = drop (Suc (length (takeWhile (\<lambda>x. x \<noteq> CHR '':'') v))) v"
proof (cases "dropWhile (\<lambda>x. x \<noteq> CHR '':'') v")
  case Nil
  have "split (CHR '':'') v = [v]" by (subst split.simps) (simp only: Nil list.case)
  moreover from Nil have "takeWhile (\<lambda>x. x \<noteq> CHR '':'') v = v" by simp
  ultimately show ?thesis by (simp add: getMenuItemData_def del: takeWhile_eq_all_conv)
next
  case (Cons x rest)
  then have xc: "x = CHR '':''"
    using hd_dropWhile [of "\<lambda>x. x \<noteq> CHR '':''" v] by auto
  have s: "split (CHR '':'') v = takeWhile (\<lambda>x. x \<noteq> CHR '':'') v # split (CHR '':'') rest"
    by (subst split.simps) (simp add: Cons)
  have v: "v = takeWhile (\<lambda>x. x \<noteq> CHR '':'') v @ CHR '':'' # rest"
    using takeWhile_dropWhile_id [of "\<lambda>x. x \<noteq> CHR '':''" v] Cons xc by simp
  have "drop (Suc (length (takeWhile (\<lambda>x. x \<noteq> CHR '':'') v))) v = rest"
    by (subst (2) v) simp
  then show ?thesis
    using join_split [of "CHR '':''" rest] by (simp add: getMenuItemData_def s)
qed

text \<open>
  The claim as first stated asks for a rejection of a type outside the enumeration. The
  key \<open>foo:1\<close> is decoded to the type \<open>foo\<close>, which is not a member.
\<close>

theorem getMenuItemData_unknown_type_counterexample:
  "''foo'' \<notin> set MenuItemTypes \<and>
   getMenuItemData ''foo:1'' = \<lparr>id_field = ''1'', type_field = ''foo''\<rparr>"
  using getMenuItemData_append [of "''foo''" "''1''"] by (simp add: MenuItemTypes_def)

section \<open>The tree search\<close>

text \<open>
  Claim C2. \<^verbatim>\<open>findMenuItem\<close> returns the first leaf, in depth-first order (the children
  of a group before its later siblings, in array order), whose value is the target; it
  returns \<^verbatim>\<open>undefined\<close> if and only if no leaf of the tree has that value.
\<close>

theorem findMenuItem_first_leaf:
  "findMenuItem menu v = find (\<lambda>m. val m = Some v) (leaves menu) \<and>
   (findMenuItem menu v = None \<longleftrightarrow> \<not> (\<exists>m \<in> set (leaves menu). val m = Some v))"
  by (auto simp: findMenuItem_leaves find_None_iff)

text \<open>
  Two searches: one with three matching leaves, where the first one in depth-first order
  is returned, and one without a matching leaf.
\<close>

theorem findMenuItem_first_leaf_witness:
  "findMenuItem
     [SelectMenuItem (Some [SelectMenuItem None (Text ''Accessories'') (Some ''category:7''),
                            SelectMenuItem None (Text ''Again'') (Some ''category:7'')])
        (Text ''Categories (2)'') None,
      SelectMenuItem None (Text ''Late'') (Some ''category:7'')]
     ''category:7''
   = Some (SelectMenuItem None (Text ''Accessories'') (Some ''category:7'')) \<and>
   findMenuItem
     [SelectMenuItem (Some [SelectMenuItem None (Text ''Accessories'') (Some ''category:7'')])
        (Text ''Categories (1)'') None]
     ''category:8''
   = None"
  using findMenuItem_first_leaf
      [of "[SelectMenuItem (Some [SelectMenuItem None (Text ''Accessories'') (Some ''category:7''),
                            SelectMenuItem None (Text ''Again'') (Some ''category:7'')])
        (Text ''Categories (2)'') None,
      SelectMenuItem None (Text ''Late'') (Some ''category:7'')]" "''category:7''"]
    findMenuItem_first_leaf
      [of "[SelectMenuItem (Some [SelectMenuItem None (Text ''Accessories'') (Some ''category:7'')])
        (Text ''Categories (1)'') None]" "''category:8''"]
  by (simp add: leaves_def)

text \<open>
  Claim C10. A node is a group as soon as it has a \<^verbatim>\<open>children\<close> array, whatever its
  own value: such a node contributes the search of its children and nothing else, a
  group with the empty array contributes nothing, and no node with a \<^verbatim>\<open>children\<close>
  array is ever the result of a search.
\<close>

theorem findMenuItem_group_by_children:
  "findMenuItem (SelectMenuItem (Some cs) l x # ms) v =
     (case findMenuItem cs v of Some r \<Rightarrow> Some r | None \<Rightarrow> findMenuItem ms v) \<and>
   findMenuItem (SelectMenuItem (Some []) l x # ms) v = findMenuItem ms v \<and>
   (findMenuItem menu v = Some r \<longrightarrow> children r = None)"
proof (intro conjI impI)
  show "findMenuItem (SelectMenuItem (Some cs) l x # ms) v =
     (case findMenuItem cs v of Some r \<Rightarrow> Some r | None \<Rightarrow> findMenuItem ms v)"
    by (simp add: findMenuItem_Cons)
  show "findMenuItem (SelectMenuItem (Some []) l x # ms) v = findMenuItem ms v"
    by (simp add: findMenuItem_Cons findMenuItem_Nil)
next
  assume "findMenuItem menu v = Some r"
  then have "find (\<lambda>m. val m = Some v) (leaves menu) = Some r"
    by (simp add: findMenuItem_leaves)
  then have "r \<in> set (leaves menu)" by (simp add: find_Some_set)
  then show "children r = None" by (rule leaves_are_leaves)
qed

text \<open>
  A group carrying the value searched for is not a match; its child is, when it has the
  value.
\<close>

theorem findMenuItem_group_by_children_witness:
  "findMenuItem
     [SelectMenuItem (Some [SelectMenuItem None (Text ''Accessories'') (Some ''category:8'')])
        (Text ''Both'') (Some ''category:7'')] ''category:7'' = None \<and>
   findMenuItem [SelectMenuItem (Some []) (Text ''Empty'') (Some ''category:7'')] ''category:7'' = None \<and>
   findMenuItem
     [SelectMenuItem (Some [SelectMenuItem None (Text ''Accessories'') (Some ''category:7'')])
        (Text ''Both'') (Some ''category:7'')] ''category:7''
     = Some (SelectMenuItem None (Text ''Accessories'') (Some ''category:7'')) \<and>
   children (SelectMenuItem None (Text ''Accessories'') (Some ''category:7'')) = None"
  using findMenuItem_group_by_children
      [of "[SelectMenuItem None (Text ''Accessories'') (Some ''category:8'')]" "Text ''Both''"
          "Some ''category:7''" "[]" "''category:7''"
          "[SelectMenuItem (Some [SelectMenuItem None (Text ''Accessories'') (Some ''category:7'')])
             (Text ''Both'') (Some ''category:7'')]"
          "SelectMenuItem None (Text ''Accessories'') (Some ''category:7'')"]
    findMenuItem_group_by_children
      [of "[SelectMenuItem None (Text ''Accessories'') (Some ''category:7'')]" "Text ''Empty''"
          "Some ''category:7''" "[]" "''category:7''" "[]"
          "SelectMenuItem None (Text ''Accessories'') (Some ''category:7'')"]
  by (simp add: findMenuItem_Cons findMenuItem_Nil)

section \<open>The display-label resolver\<close>

text \<open>
  Claim C5. For a selection key whose decoded type is \<open>link\<close>, \<^verbatim>\<open>getDisplayValue\<close>
  returns the decoded id, whatever the option tree is; on the key \<open>"link:" + u\<close> that is
  the URL text \<open>u\<close> unchanged.
\<close>

theorem getDisplayValue_link:
  "(type_field (getMenuItemData v) = ''link'' \<longrightarrow>
      getDisplayValue menu v = Inr (id_field (getMenuItemData v))) \<and>
   getDisplayValue menu (''link:'' @ u) = Inr u"
  using getMenuItemData_link_url [of u] by (simp add: getDisplayValue_def Let_def)

text \<open>
  The same link key against the empty tree and against a tree of categories.
\<close>

theorem getDisplayValue_link_witness:
  "type_field (getMenuItemData ''link:https://a.b/c'') = ''link'' \<and>
   getDisplayValue [] ''link:https://a.b/c'' = Inr ''https://a.b/c'' \<and>
   getDisplayValue
     [SelectMenuItem (Some [SelectMenuItem None (Text ''Accessories'') (Some ''category:7'')])
        (Text ''Categories (1)'') None] ''link:https://a.b/c'' = Inr ''https://a.b/c''"
  using getDisplayValue_link [of "''link:https://a.b/c''" "[]" "''https://a.b/c''"]
    getDisplayValue_link [of "''link:https://a.b/c''"
      "[SelectMenuItem (Some [SelectMenuItem None (Text ''Accessories'') (Some ''category:7'')])
        (Text ''Categories (1)'') None]" "''https://a.b/c''"]
    getMenuItemData_link_url [of "''https://a.b/c''"]
  by simp

text \<open>
  Claim C3, as amended. For a selection key whose decoded type is not \<open>link\<close> and
  that no leaf of the tree has as its value, \<^verbatim>\<open>getDisplayValue\<close> returns no label, neither
  a placeholder nor the empty string: it ends in the \<^verbatim>\<open>TypeError\<close> raised by reading
  \<^verbatim>\<open>label\<close> of the \<^verbatim>\<open>undefined\<close> search result. There is no lookup-failure error of
  its own.
\<close>

theorem getDisplayValue_missing:
  "type_field (getMenuItemData v) \<noteq> ''link'' \<Longrightarrow>
   \<not> (\<exists>m \<in> set (leaves menu). val m = Some v) \<Longrightarrow>
   getDisplayValue menu v = Inl (TypeError ''label'')"
proof -
  assume t: "type_field (getMenuItemData v) \<noteq> ''link''"
    and n: "\<not> (\<exists>m \<in> set (leaves menu). val m = Some v)"
  from n have "findMenuItem menu v = None"
    by (simp add: findMenuItem_leaves find_None_iff)
  with t show ?thesis by (simp add: getDisplayValue_def Let_def)
qed

text \<open>
  A collection key looked up in a tree that holds one category only.
\<close>

theorem getDisplayValue_missing_witness:
  "type_field (getMenuItemData ''collection:42'') \<noteq> ''link'' \<and>
   \<not> (\<exists>m \<in> set (leaves
        [SelectMenuItem (Some [SelectMenuItem None (Text ''Accessories'') (Some ''category:7'')])
           (Text ''Categories (1)'') None]). val m = Some ''collection:42'') \<and>
   getDisplayValue
     [SelectMenuItem (Some [SelectMenuItem None (Text ''Accessories'') (Some ''category:7'')])
        (Text ''Categories (1)'') None] ''collection:42'' = Inl (TypeError ''label'')"
proof -
  have t: "type_field (getMenuItemData ''collection:42'') \<noteq> ''link''"
    by (simp add: getMenuItemData_collection42)
  have n: "\<not> (\<exists>m \<in> set (leaves
        [SelectMenuItem (Some [SelectMenuItem None (Text ''Accessories'') (Some ''category:7'')])
           (Text ''Categories (1)'') None]). val m = Some ''collection:42'')"
    by (simp add: leaves_def)
  from t n getDisplayValue_missing [OF t n] show ?thesis by blast
qed

text \<open>
  The claim as first stated excludes the failure on the dereference of a missing value.
  On the empty tree the key \<open>category:7\<close> has a type other than \<open>link\<close>, the search
  finds nothing, and the result is that very failure.
\<close>

theorem getDisplayValue_missing_counterexample:
  "type_field (getMenuItemData ''category:7'') \<noteq> ''link'' \<and>
   findMenuItem [] ''category:7'' = None \<and>
   getDisplayValue [] ''category:7'' = Inl (TypeError ''label'')"
  by (simp add: getDisplayValue_def getMenuItemData_category7 findMenuItem_Nil)

section \<open>The coordinator's option tree and handlers\<close>

text \<open>
  Claim C9. Without initial form data the form starts from the default record: empty id,
  empty name, and the type \<open>category\<close>.
\<close>

theorem form_initial_default:
  "form_initial None = \<lparr>id_field = [], type_field = ''category'', name_field = []\<rparr>"
  by (simp add: form_initial_def defaultInitial_def)

text \<open>
  Claim C4. When the \<^verbatim>\<open>url\<close> cell holds a detected URL \<open>u\<close> (a truthy string, so not
  the empty one), the option tree is exactly one leaf, of value \<open>"link:" + u\<close>, whatever
  the candidate lists are: no category group and no collection group.
\<close>

theorem options_link_only:
  "u \<noteq> [] \<Longrightarrow>
   options t categories collections (Some u) =
     [SelectMenuItem None
        (Element (t ''link to: <strong>{{ url }}</strong>''
           [(''context'', Str ''add link to navigation''), (''url'', Str u)]))
        (Some (''link:'' @ u))]"
  by (simp add: options_def Let_def)

text \<open>
  Both candidate lists non-empty, and the URL of the specification's scenario.
\<close>

theorem options_link_only_witness:
  "''https://example.com'' \<noteq> [] \<and>
   options (\<lambda>msg args. msg)
     [\<lparr>node_id = ''7'', node_name = ''Accessories''\<rparr>]
     [\<lparr>node_id = ''42'', node_name = ''Summer''\<rparr>]
     (Some ''https://example.com'') =
     [SelectMenuItem None (Element ''link to: <strong>{{ url }}</strong>'')
        (Some ''link:https://example.com'')]"
  using options_link_only [of "''https://example.com''" "\<lambda>msg args. msg"
      "[\<lparr>node_id = ''7'', node_name = ''Accessories''\<rparr>]"
      "[\<lparr>node_id = ''42'', node_name = ''Summer''\<rparr>]"]
  by simp

text \<open>
  Claim C6. \<^verbatim>\<open>handleQueryChange\<close> stores the query in the \<^verbatim>\<open>url\<close> cell when the
  classifier accepts it, clears the cell when the classifier rejects the query and the
  cell held a URL, leaves an empty cell as it is otherwise, and in every case calls
  \<^verbatim>\<open>onQueryChange\<close> once more, with the query as typed.
\<close>

theorem handleQueryChange_effect:
  "(isUrl q \<longrightarrow> url (handleQueryChange isUrl q st) = Some q) \<and>
   (\<not> isUrl q \<and> truthy (url st) \<longrightarrow> url (handleQueryChange isUrl q st) = None) \<and>
   (\<not> isUrl q \<and> \<not> truthy (url st) \<longrightarrow> url (handleQueryChange isUrl q st) = url st) \<and>
   queries (trace (handleQueryChange isUrl q st)) = queries (trace st) @ [q]"
  by (simp add: handleQueryChange_def Let_def setUrl_def onQueryChange_def queries_append)

text \<open>
  A URL typed into a fresh dialog, then a plain word typed after it.
\<close>

theorem handleQueryChange_effect_witness:
  "(\<lambda>q. q = ''https://example.com'') ''https://example.com'' \<and>
   url (handleQueryChange (\<lambda>q. q = ''https://example.com'') ''https://example.com''
          \<lparr>data = defaultInitial, displayValue = None, url = None, trace = []\<rparr>)
     = Some ''https://example.com'' \<and>
   \<not> (\<lambda>q. q = ''https://example.com'') ''shoes'' \<and>
   truthy (Some ''https://example.com'') \<and>
   url (handleQueryChange (\<lambda>q. q = ''https://example.com'') ''shoes''
          \<lparr>data = defaultInitial, displayValue = None, url = Some ''https://example.com'',
           trace = [SetUrl (Some ''https://example.com''), OnQueryChange ''https://example.com'']\<rparr>)
     = None \<and>
   queries (trace (handleQueryChange (\<lambda>q. q = ''https://example.com'') ''shoes''
          \<lparr>data = defaultInitial, displayValue = None, url = Some ''https://example.com'',
           trace = [SetUrl (Some ''https://example.com''), OnQueryChange ''https://example.com'']\<rparr>))
     = [''https://example.com'', ''shoes'']"
  using handleQueryChange_effect [of "\<lambda>q. q = ''https://example.com''" "''https://example.com''"
          "\<lparr>data = defaultInitial, displayValue = None, url = None, trace = []\<rparr>"]
    handleQueryChange_effect [of "\<lambda>q. q = ''https://example.com''" "''shoes''"
          "\<lparr>data = defaultInitial, displayValue = None, url = Some ''https://example.com'',
           trace = [SetUrl (Some ''https://example.com''), OnQueryChange ''https://example.com'']\<rparr>"]
  by simp

text \<open>
  Claim C7. Selecting the key \<open>collection:42\<close> in an option tree whose first leaf of
  that value is \<open>leaf\<close> writes the id \<open>42\<close>, then the type \<open>collection\<close>, into the form's
  data, and then sets the display value to the label stored in \<open>leaf\<close>: the trace grows
  by these three effects in this order.
\<close>

theorem handleSelectChange_collection42:
  "find (\<lambda>m. val m = Some ''collection:42'') (leaves opts) = Some leaf \<Longrightarrow>
   handleSelectChange opts ''collection:42'' st =
     Inr (st\<lparr>data := (data st)\<lparr>id_field := ''42'', type_field := ''collection''\<rparr>,
             displayValue := Some (toString (label leaf)),
             trace := trace st @ [Change F_id ''42'', Change F_type ''collection'',
                                  SetDisplayValue (toString (label leaf))]\<rparr>)"
proof -
  assume "find (\<lambda>m. val m = Some ''collection:42'') (leaves opts) = Some leaf"
  then have f: "findMenuItem opts ''collection:42'' = Some leaf"
    by (simp add: findMenuItem_leaves)
  have d: "getDisplayValue opts ''collection:42'' = Inr (toString (label leaf))"
    by (simp add: getDisplayValue_def getMenuItemData_collection42 f)
  show ?thesis
    by (simp add: handleSelectChange_def getMenuItemData_collection42 change_def d
        setDisplayValue_def)
qed

text \<open>
  The option tree built from one category and the collection 42, named Summer.
\<close>

theorem handleSelectChange_collection42_witness:
  "find (\<lambda>m. val m = Some ''collection:42'')
     (leaves (options (\<lambda>msg args. msg)
        [\<lparr>node_id = ''7'', node_name = ''Accessories''\<rparr>]
        [\<lparr>node_id = ''42'', node_name = ''Summer''\<rparr>] None))
     = Some (SelectMenuItem None (Text ''Summer'') (Some ''collection:42'')) \<and>
   handleSelectChange
     (options (\<lambda>msg args. msg)
        [\<lparr>node_id = ''7'', node_name = ''Accessories''\<rparr>]
        [\<lparr>node_id = ''42'', node_name = ''Summer''\<rparr>] None)
     ''collection:42''
     \<lparr>data = defaultInitial, displayValue = None, url = None, trace = []\<rparr>
   = Inr \<lparr>data = \<lparr>id_field = ''42'', type_field = ''collection'', name_field = []\<rparr>,
          displayValue = Some ''Summer'', url = None,
          trace = [Change F_id ''42'', Change F_type ''collection'', SetDisplayValue ''Summer'']\<rparr>"
proof -
  have h: "find (\<lambda>m. val m = Some ''collection:42'')
     (leaves (options (\<lambda>msg args. msg)
        [\<lparr>node_id = ''7'', node_name = ''Accessories''\<rparr>]
        [\<lparr>node_id = ''42'', node_name = ''Summer''\<rparr>] None))
     = Some (SelectMenuItem None (Text ''Summer'') (Some ''collection:42''))"
    by (simp add: options_def leaves_def)
  show ?thesis
    using h handleSelectChange_collection42 [OF h,
        of "\<lparr>data = defaultInitial, displayValue = None, url = None, trace = []\<rparr>"]
    by (simp add: defaultInitial_def)
qed

end
